theory Spec2Isabelle
  imports Complex_Main
begin

section \<open>donkeycar/parts/actuator.py: motor and servo actuators\<close>

text \<open>
  The Python numbers that travel through the actuators (steering, throttle, pulse widths)
  are modelled as real numbers: the comparisons, additions and subtractions of the source
  are taken exactly, and the rounding of floating-point arithmetic is not modelled.
  An exception is a value of \<open>exn\<close>; a call that raises returns \<open>Inl\<close> with the
  exception and the state the call left behind, a call that returns gives \<open>Inr\<close>.
  The constructors of the vendor objects (the AMSpi shield apart) and the class
  \<open>Adafruit_DCMotor_Hat\<close> are left out: none of the properties below reads them.
\<close>

subsection \<open>Exceptions and observable effects\<close>

datatype exn =
    ValueError string
  | OSError string
  | ZeroDivisionError string
  | OtherError string

datatype motor = DC_Motor_1 | DC_Motor_2 | DC_Motor_3 | DC_Motor_4

text \<open>
  The effects of the module on its surroundings, in the order in which they happen: the
  calls made on the AMSpi motor shield, completed writes of a PWM board, lines printed on
  standard output and calls of \<open>time.sleep\<close>.
\<close>

datatype event =
    Set_74HC595_pins int int int
  | Set_L293D_pins int int int int
  | Run_dc_motors "motor list" int bool
  | Run_dc_motor motor int bool
  | Set_pwm nat nat real
  | Print string
  | Sleep real

type_synonym world = "event list"

definition print :: "string \<Rightarrow> world \<Rightarrow> world" where
  "print line w = w @ [Print line]"

definition time_sleep :: "real \<Rightarrow> world \<Rightarrow> world" where
  "time_sleep secs w = w @ [Sleep secs]"

text \<open>
  \<open>int(x)\<close> of Python on a number: truncation towards zero.
\<close>

definition py_int :: "real \<Rightarrow> int" where
  "py_int x = (if x < 0 then \<lceil>x\<rceil> else \<lfloor>x\<rfloor>)"

subsection \<open>RangeMapper\<close>

text \<open>
  Modelled from the spec: \<open>donkeycar.util.data.map_range\<close> is called by every class of
  actuator.py, and its file is not among the sources. The spec (4.1) gives it as the linear
  interpolation \<open>out_min + (value - in_min) * (out_max - out_min) / (in_max - in_min)\<close>,
  without clamping, where equal input bounds are a fatal division by zero.
\<close>

definition map_range :: "real \<Rightarrow> real \<Rightarrow> real \<Rightarrow> real \<Rightarrow> real \<Rightarrow> exn + real" where
  "map_range x in_min in_max out_min out_max =
     (if in_max - in_min = 0 then Inl (ZeroDivisionError ''division by zero'')
      else Inr (out_min + (x - in_min) * (out_max - out_min) / (in_max - in_min)))"

subsection \<open>AMSL293D: the differential-drive arbiter\<close>

text \<open>
  The AMSpi shield is an external library. Its methods are assumed to succeed (the source
  has no handler around them) and are modelled by the record they leave in the world.
\<close>

definition set_74HC595_pins :: "int \<Rightarrow> int \<Rightarrow> int \<Rightarrow> world \<Rightarrow> world" where
  "set_74HC595_pins a b c w = w @ [Set_74HC595_pins a b c]"

definition set_L293D_pins :: "int \<Rightarrow> int \<Rightarrow> int \<Rightarrow> int \<Rightarrow> world \<Rightarrow> world" where
  "set_L293D_pins a b c d w = w @ [Set_L293D_pins a b c d]"

definition run_dc_motors :: "motor list \<Rightarrow> int \<Rightarrow> bool \<Rightarrow> world \<Rightarrow> world" where
  "run_dc_motors dc_motors speed clockwise w = w @ [Run_dc_motors dc_motors speed clockwise]"

definition run_dc_motor :: "motor \<Rightarrow> int \<Rightarrow> bool \<Rightarrow> world \<Rightarrow> world" where
  "run_dc_motor dc_motor speed clockwise w = w @ [Run_dc_motor dc_motor speed clockwise]"

record AMSL293D =
  throttleL :: real
  throttleR :: real

definition AMSL293D_init :: "world \<Rightarrow> AMSL293D \<times> world" where
  "AMSL293D_init w =
     (\<lparr>throttleL = 0, throttleR = 0\<rparr>,
      set_L293D_pins 5 6 13 19 (set_74HC595_pins 21 20 16 w))"

text \<open>
  \<open>convert\<close>, \<open>runLeftMotors\<close> and \<open>runRightMotors\<close> read no field of \<open>self\<close> but
  the shield, so the model does not pass \<open>self\<close> to them. Each argument
  \<open>self.convert(abs(throttle))\<close> is evaluated before the call it belongs to.
\<close>

definition AMSL293D_convert :: "real \<Rightarrow> exn + int" where
  "AMSL293D_convert v =
     (case map_range \<bar>v\<bar> 0 1 0 100 of
        Inl e \<Rightarrow> Inl e
      | Inr y \<Rightarrow> Inr (py_int y))"

definition AMSL293D_runLeftMotors :: "real \<Rightarrow> world \<Rightarrow> (exn \<times> world) + world" where
  "AMSL293D_runLeftMotors throttle w =
     (case AMSL293D_convert \<bar>throttle\<bar> of
        Inl e \<Rightarrow> Inl (e, w)
      | Inr speed \<Rightarrow> Inr (run_dc_motors [DC_Motor_1, DC_Motor_2] speed (throttle > 0) w))"

definition AMSL293D_runRightMotors :: "real \<Rightarrow> world \<Rightarrow> (exn \<times> world) + world" where
  "AMSL293D_runRightMotors throttle w =
     (case AMSL293D_convert \<bar>throttle\<bar> of
        Inl e \<Rightarrow> Inl (e, w)
      | Inr speed3 \<Rightarrow>
          (let w3 = run_dc_motor DC_Motor_3 speed3 (throttle > 0) w in
           case AMSL293D_convert \<bar>throttle\<bar> of
             Inl e \<Rightarrow> Inl (e, w3)
           | Inr speed4 \<Rightarrow> Inr (run_dc_motor DC_Motor_4 speed4 (\<not> (throttle > 0)) w3)))"

text \<open>
  The \<open>if\<close>/\<open>elif\<close> chain of \<open>run\<close> has no final \<open>else\<close>: when no branch
  matches, the two fields keep their values.
\<close>

definition AMSL293D_run ::
  "AMSL293D \<Rightarrow> real \<Rightarrow> real \<Rightarrow> world \<Rightarrow> (exn \<times> AMSL293D \<times> world) + (AMSL293D \<times> world)" where
  "AMSL293D_run self steering throttle w =
     (if throttle > 1 \<or> throttle < - 1 then
        Inl (ValueError ''Speed must be between 1(forward) and -1(reverse)'', self, w)
      else if steering > 1 \<or> steering < - 1 then
        Inl (ValueError ''Steering must be between 1 and -1'', self, w)
      else
        (let self' =
           (if steering = 0 then
              self\<lparr>throttleL := throttle, throttleR := throttle\<rparr>
            else if steering > 0 \<and> throttle > 0 then
              self\<lparr>throttleL := throttle, throttleR := throttle - steering\<rparr>
            else if steering < 0 \<and> throttle > 0 then
              self\<lparr>throttleL := throttle + steering, throttleR := throttle\<rparr>
            else if steering > 0 \<and> throttle < 0 then
              self\<lparr>throttleL := throttle, throttleR := throttle + steering\<rparr>
            else if steering < 0 \<and> throttle < 0 then
              self\<lparr>throttleL := throttle - steering, throttleR := throttle\<rparr>
            else self)
         in
         case AMSL293D_runLeftMotors (throttleL self') w of
           Inl (e, w1) \<Rightarrow> Inl (e, self', w1)
         | Inr w1 \<Rightarrow>
             (case AMSL293D_runRightMotors (throttleR self') w1 of
                Inl (e, w2) \<Rightarrow> Inl (e, self', w2)
              | Inr w2 \<Rightarrow> Inr (self', w2))))"

subsection \<open>PCA9685: the PWM driver\<close>

text \<open>
  The board object \<open>self.pwm\<close> belongs to the Adafruit library. The model holds its
  method \<open>set_pwm(channel, on, off)\<close> in the field \<open>pwm\<close>: any function on the world
  that either returns or raises. \<open>set_pulse\<close> catches \<open>OSError\<close> and nothing else.
\<close>

record PCA9685 =
  pwm :: "nat \<Rightarrow> nat \<Rightarrow> real \<Rightarrow> world \<Rightarrow> (exn \<times> world) + world"
  channel :: nat

definition PCA9685_set_pulse :: "PCA9685 \<Rightarrow> real \<Rightarrow> world \<Rightarrow> (exn \<times> world) + world" where
  "PCA9685_set_pulse self pulse w =
     (case pwm self (channel self) 0 pulse w of
        Inr w' \<Rightarrow> Inr w'
      | Inl (e, w') \<Rightarrow>
          (case e of
             OSError err \<Rightarrow>
               Inr (print (''Unexpected issue setting PWM (check wires to motor board): '' @ err) w')
           | _ \<Rightarrow> Inl (e, w')))"

definition PCA9685_run :: "PCA9685 \<Rightarrow> real \<Rightarrow> world \<Rightarrow> (exn \<times> world) + world" where
  "PCA9685_run self pulse w = PCA9685_set_pulse self pulse w"

subsection \<open>PWMSteering\<close>

text \<open>
  The field \<open>controller\<close> holds the \<open>set_pulse\<close> method of whatever object the caller
  passed in; a \<open>PCA9685\<close> enters as \<open>PCA9685_set_pulse d\<close>.
\<close>

definition LEFT_ANGLE :: real where
  "LEFT_ANGLE = - 1"

definition RIGHT_ANGLE :: real where
  "RIGHT_ANGLE = 1"

record PWMSteering =
  controller :: "real \<Rightarrow> world \<Rightarrow> (exn \<times> world) + world"
  left_pulse :: real
  right_pulse :: real

definition PWMSteering_init ::
  "(real \<Rightarrow> world \<Rightarrow> (exn \<times> world) + world) \<Rightarrow> real \<Rightarrow> real \<Rightarrow> PWMSteering" where
  "PWMSteering_init ctl left right =
     \<lparr>controller = ctl, left_pulse = left, right_pulse = right\<rparr>"

definition PWMSteering_run :: "PWMSteering \<Rightarrow> real \<Rightarrow> world \<Rightarrow> (exn \<times> world) + world" where
  "PWMSteering_run self angle w =
     (case map_range angle LEFT_ANGLE RIGHT_ANGLE (left_pulse self) (right_pulse self) of
        Inl e \<Rightarrow> Inl (e, w)
      | Inr pulse \<Rightarrow> controller self pulse w)"

definition PWMSteering_shutdown :: "PWMSteering \<Rightarrow> world \<Rightarrow> (exn \<times> world) + world" where
  "PWMSteering_shutdown self w = PWMSteering_run self 0 w"

subsection \<open>PWMThrottle\<close>

definition MIN_THROTTLE :: real where
  "MIN_THROTTLE = - 1"

definition MAX_THROTTLE :: real where
  "MAX_THROTTLE = 1"

record PWMThrottle =
  controller :: "real \<Rightarrow> world \<Rightarrow> (exn \<times> world) + world"
  max_pulse :: real
  min_pulse :: real
  zero_pulse :: real

text \<open>
  The constructor stores its arguments, sends the zero pulse through the controller and
  then calls \<open>time.sleep(1)\<close>. If the controller raises, the constructor raises with
  it and no object is made.
\<close>

definition PWMThrottle_init ::
  "(real \<Rightarrow> world \<Rightarrow> (exn \<times> world) + world) \<Rightarrow> real \<Rightarrow> real \<Rightarrow> real \<Rightarrow> world \<Rightarrow>
     (exn \<times> world) + (PWMThrottle \<times> world)" where
  "PWMThrottle_init ctl maxp minp zerop w =
     (let self = \<lparr>controller = ctl, max_pulse = maxp, min_pulse = minp, zero_pulse = zerop\<rparr> in
      case controller self (zero_pulse self) w of
        Inl (e, w') \<Rightarrow> Inl (e, w')
      | Inr w' \<Rightarrow> Inr (self, time_sleep 1 w'))"

definition PWMThrottle_run :: "PWMThrottle \<Rightarrow> real \<Rightarrow> world \<Rightarrow> (exn \<times> world) + world" where
  "PWMThrottle_run self throttle w =
     (case (if throttle > 0
            then map_range throttle 0 MAX_THROTTLE (zero_pulse self) (max_pulse self)
            else map_range throttle MIN_THROTTLE 0 (min_pulse self) (zero_pulse self)) of
        Inl e \<Rightarrow> Inl (e, w)
      | Inr pulse \<Rightarrow> controller self pulse w)"

definition PWMThrottle_shutdown :: "PWMThrottle \<Rightarrow> world \<Rightarrow> (exn \<times> world) + world" where
  "PWMThrottle_shutdown self w = PWMThrottle_run self 0 w"

subsection \<open>Two boards for concrete runs\<close>

text \<open>
  A board whose writes succeed and are recorded, and a board whose every write raises
  \<open>OSError\<close> and changes nothing.
\<close>

definition working_pwm :: "nat \<Rightarrow> nat \<Rightarrow> real \<Rightarrow> world \<Rightarrow> (exn \<times> world) + world" where
  "working_pwm ch on off w = Inr (w @ [Set_pwm ch on off])"

definition failing_pwm :: "nat \<Rightarrow> nat \<Rightarrow> real \<Rightarrow> world \<Rightarrow> (exn \<times> world) + world" where
  "failing_pwm ch on off w = Inl (OSError ''[Errno 121] Remote I/O error'', w)"

section \<open>Properties\<close>

subsection \<open>What the motor commands of one side are\<close>

lemma py_int_nonneg: "0 \<le> x \<Longrightarrow> py_int x = \<lfloor>x\<rfloor>"
  by (simp add: py_int_def)

lemma convert_eq: "AMSL293D_convert v = Inr \<lfloor>\<bar>v\<bar> * 100\<rfloor>"
  by (simp add: AMSL293D_convert_def map_range_def py_int_nonneg)

lemma runLeftMotors_eq:
  "AMSL293D_runLeftMotors v w =
     Inr (w @ [Run_dc_motors [DC_Motor_1, DC_Motor_2] \<lfloor>\<bar>v\<bar> * 100\<rfloor> (v > 0)])"
  by (simp add: AMSL293D_runLeftMotors_def convert_eq run_dc_motors_def)

lemma runRightMotors_eq:
  "AMSL293D_runRightMotors v w =
     Inr (w @ [Run_dc_motor DC_Motor_3 \<lfloor>\<bar>v\<bar> * 100\<rfloor> (v > 0),
               Run_dc_motor DC_Motor_4 \<lfloor>\<bar>v\<bar> * 100\<rfloor> (\<not> (v > 0))])"
  by (simp add: AMSL293D_runRightMotors_def convert_eq run_dc_motor_def)

lemma run_valid:
  assumes "\<bar>steering\<bar> \<le> 1" and "\<bar>throttle\<bar> \<le> 1"
  shows "AMSL293D_run self steering throttle w =
     (let self' =
        (if steering = 0 then
           self\<lparr>throttleL := throttle, throttleR := throttle\<rparr>
         else if steering > 0 \<and> throttle > 0 then
           self\<lparr>throttleL := throttle, throttleR := throttle - steering\<rparr>
         else if steering < 0 \<and> throttle > 0 then
           self\<lparr>throttleL := throttle + steering, throttleR := throttle\<rparr>
         else if steering > 0 \<and> throttle < 0 then
           self\<lparr>throttleL := throttle, throttleR := throttle + steering\<rparr>
         else if steering < 0 \<and> throttle < 0 then
           self\<lparr>throttleL := throttle - steering, throttleR := throttle\<rparr>
         else self)
      in Inr (self',
           w @ [Run_dc_motors [DC_Motor_1, DC_Motor_2] \<lfloor>\<bar>throttleL self'\<bar> * 100\<rfloor> (throttleL self' > 0),
                Run_dc_motor DC_Motor_3 \<lfloor>\<bar>throttleR self'\<bar> * 100\<rfloor> (throttleR self' > 0),
                Run_dc_motor DC_Motor_4 \<lfloor>\<bar>throttleR self'\<bar> * 100\<rfloor> (\<not> (throttleR self' > 0))]))"
proof -
  from assms have ok: "\<not> (throttle > 1 \<or> throttle < - 1)" "\<not> (steering > 1 \<or> steering < - 1)"
    by auto
  show ?thesis
    unfolding AMSL293D_run_def Let_def
    by (simp only: ok if_False runLeftMotors_eq runRightMotors_eq sum.case append_assoc append.simps)
qed

subsection \<open>The differential-drive arbiter\<close>

text \<open>
  C1. For steering and throttle within \<open>[-1, 1]\<close>, \<open>run\<close> returns normally and the
  stored pair is the quadrant blend: straight when steering is zero; forward and turning
  right, \<open>left = throttle\<close> and \<open>right = throttle - steering\<close>; forward and turning left,
  \<open>left = throttle + steering\<close> and \<open>right = throttle\<close>; backward with positive
  steering, \<open>left = throttle\<close> and \<open>right = throttle + steering\<close>; backward with negative
  steering, \<open>left = throttle - steering\<close> and \<open>right = throttle\<close>. The motor commands
  issued are those of the stored pair.
\<close>

theorem run_quadrant_blending:
  assumes "\<bar>steering\<bar> \<le> 1" and "\<bar>throttle\<bar> \<le> 1"
  shows "\<exists>self' w'.
     AMSL293D_run self steering throttle w = Inr (self', w')
     \<and> (steering = 0 \<longrightarrow> throttleL self' = throttle \<and> throttleR self' = throttle)
     \<and> (steering > 0 \<and> throttle > 0 \<longrightarrow>
          throttleL self' = throttle \<and> throttleR self' = throttle - steering)
     \<and> (steering < 0 \<and> throttle > 0 \<longrightarrow>
          throttleL self' = throttle + steering \<and> throttleR self' = throttle)
     \<and> (steering > 0 \<and> throttle < 0 \<longrightarrow>
          throttleL self' = throttle \<and> throttleR self' = throttle + steering)
     \<and> (steering < 0 \<and> throttle < 0 \<longrightarrow>
          throttleL self' = throttle - steering \<and> throttleR self' = throttle)
     \<and> w' = w @ [Run_dc_motors [DC_Motor_1, DC_Motor_2] \<lfloor>\<bar>throttleL self'\<bar> * 100\<rfloor> (throttleL self' > 0),
                  Run_dc_motor DC_Motor_3 \<lfloor>\<bar>throttleR self'\<bar> * 100\<rfloor> (throttleR self' > 0),
                  Run_dc_motor DC_Motor_4 \<lfloor>\<bar>throttleR self'\<bar> * 100\<rfloor> (\<not> (throttleR self' > 0))]"
  unfolding run_valid [OF assms] Let_def
  by (simp split: if_splits)

text \<open>
  The example of the spec: throttle 0.5 and steering 0.3 give left 0.5 and right 0.2,
  that is 50 and 20 percent, the fourth motor turning against the third.
\<close>

theorem run_quadrant_blending_witness:
  "\<bar>3 / 10 :: real\<bar> \<le> 1 \<and> \<bar>1 / 2 :: real\<bar> \<le> 1 \<and>
   AMSL293D_run \<lparr>throttleL = 0, throttleR = 0\<rparr> (3 / 10) (1 / 2) [] =
     Inr (\<lparr>throttleL = 1 / 2, throttleR = 1 / 5\<rparr>,
          [Run_dc_motors [DC_Motor_1, DC_Motor_2] 50 True,
           Run_dc_motor DC_Motor_3 20 True,
           Run_dc_motor DC_Motor_4 20 False])"
proof -
  have s: "\<bar>3 / 10 :: real\<bar> \<le> 1" and t: "\<bar>1 / 2 :: real\<bar> \<le> 1"
    by simp_all
  from run_quadrant_blending [OF s t, of "\<lparr>throttleL = 0, throttleR = 0\<rparr>" "[]"]
  obtain self' w' where
    run: "AMSL293D_run \<lparr>throttleL = 0, throttleR = 0\<rparr> (3 / 10) (1 / 2) [] = Inr (self', w')"
    and q1: "(3 / 10 :: real) > 0 \<and> (1 / 2 :: real) > 0 \<longrightarrow>
               throttleL self' = 1 / 2 \<and> throttleR self' = 1 / 2 - 3 / 10"
    and w': "w' = [] @ [Run_dc_motors [DC_Motor_1, DC_Motor_2] \<lfloor>\<bar>throttleL self'\<bar> * 100\<rfloor> (throttleL self' > 0),
                   Run_dc_motor DC_Motor_3 \<lfloor>\<bar>throttleR self'\<bar> * 100\<rfloor> (throttleR self' > 0),
                   Run_dc_motor DC_Motor_4 \<lfloor>\<bar>throttleR self'\<bar> * 100\<rfloor> (\<not> (throttleR self' > 0))]"
    by blast
  from q1 have l: "throttleL self' = 1 / 2" and r: "throttleR self' = 1 / 5"
    by simp_all
  from l r have self': "self' = \<lparr>throttleL = 1 / 2, throttleR = 1 / 5\<rparr>"
    by simp
  from w' have "w' = [Run_dc_motors [DC_Motor_1, DC_Motor_2] 50 True,
                      Run_dc_motor DC_Motor_3 20 True,
                      Run_dc_motor DC_Motor_4 20 False]"
    unfolding l r by simp
  with run self' s t show ?thesis
    by simp
qed

text \<open>
  C2. When the throttle or the steering lies outside \<open>[-1, 1]\<close>, \<open>run\<close> raises
  \<open>ValueError\<close> (the error the spec calls InvalidCommand) with the object and the world
  as they were: nothing has been blended or sent to a motor. The throttle is checked
  first, and each check has its own message.
\<close>

theorem run_rejects_out_of_range:
  assumes "\<bar>throttle\<bar> > 1 \<or> \<bar>steering\<bar> > 1"
  shows "AMSL293D_run self steering throttle w =
     Inl (ValueError (if \<bar>throttle\<bar> > 1
                      then ''Speed must be between 1(forward) and -1(reverse)''
                      else ''Steering must be between 1 and -1''), self, w)"
  using assms by (auto simp: AMSL293D_run_def)

text \<open>
  The two rejected commands of the spec: steering 1.5 with throttle 0, and steering 0
  with throttle -2.
\<close>

theorem run_rejects_out_of_range_witness:
  "(\<bar>0 :: real\<bar> > 1 \<or> \<bar>3 / 2 :: real\<bar> > 1) \<and>
   AMSL293D_run \<lparr>throttleL = 0, throttleR = 0\<rparr> (3 / 2) 0 [] =
     Inl (ValueError ''Steering must be between 1 and -1'', \<lparr>throttleL = 0, throttleR = 0\<rparr>, []) \<and>
   (\<bar>- 2 :: real\<bar> > 1 \<or> \<bar>0 :: real\<bar> > 1) \<and>
   AMSL293D_run \<lparr>throttleL = 0, throttleR = 0\<rparr> 0 (- 2) [] =
     Inl (ValueError ''Speed must be between 1(forward) and -1(reverse)'',
          \<lparr>throttleL = 0, throttleR = 0\<rparr>, [])"
  using run_rejects_out_of_range [of 0 "3 / 2" "\<lparr>throttleL = 0, throttleR = 0\<rparr>" "[]"]
    run_rejects_out_of_range [of "- 2" 0 "\<lparr>throttleL = 0, throttleR = 0\<rparr>" "[]"]
  by simp

text \<open>
  C9. With a throttle of exactly zero and a steering that is not zero, no branch of the
  chain matches: the stored pair stays what the previous call left, and the motors are
  driven with that pair.
\<close>

theorem run_zero_throttle_stale:
  assumes "steering \<noteq> 0" and "\<bar>steering\<bar> \<le> 1"
  shows "AMSL293D_run self steering 0 w =
     Inr (self,
          w @ [Run_dc_motors [DC_Motor_1, DC_Motor_2] \<lfloor>\<bar>throttleL self\<bar> * 100\<rfloor> (throttleL self > 0),
               Run_dc_motor DC_Motor_3 \<lfloor>\<bar>throttleR self\<bar> * 100\<rfloor> (throttleR self > 0),
               Run_dc_motor DC_Motor_4 \<lfloor>\<bar>throttleR self\<bar> * 100\<rfloor> (\<not> (throttleR self > 0))])"
proof -
  have "\<bar>0 :: real\<bar> \<le> 1" by simp
  from run_valid [OF assms(2) this] assms(1) show ?thesis
    by (simp add: Let_def)
qed

text \<open>
  After a call that stored 0.5 on both sides, steering 0.3 with throttle 0 drives all
  motors at 50 percent again.
\<close>

theorem run_zero_throttle_stale_witness:
  "(3 / 10 :: real) \<noteq> 0 \<and> \<bar>3 / 10 :: real\<bar> \<le> 1 \<and>
   AMSL293D_run \<lparr>throttleL = 1 / 2, throttleR = 1 / 2\<rparr> (3 / 10) 0 [] =
     Inr (\<lparr>throttleL = 1 / 2, throttleR = 1 / 2\<rparr>,
          [Run_dc_motors [DC_Motor_1, DC_Motor_2] 50 True,
           Run_dc_motor DC_Motor_3 50 True,
           Run_dc_motor DC_Motor_4 50 False])"
  using run_zero_throttle_stale [of "3 / 10" "\<lparr>throttleL = 1 / 2, throttleR = 1 / 2\<rparr>" "[]"]
  by simp

text \<open>
  C10. A call that is rejected leaves the stored pair as it was and issues no motor
  command: the object and the world after the raise are those before the call.
\<close>

theorem run_failure_atomic:
  assumes "\<bar>throttle\<bar> > 1 \<or> \<bar>steering\<bar> > 1"
  shows "\<exists>e. AMSL293D_run self steering throttle w = Inl (e, self, w)"
  using assms by (auto simp: AMSL293D_run_def)

theorem run_failure_atomic_witness:
  "(\<bar>0 :: real\<bar> > 1 \<or> \<bar>2 :: real\<bar> > 1) \<and>
   (\<exists>e. AMSL293D_run \<lparr>throttleL = 1 / 2, throttleR = 1 / 5\<rparr> 2 0
          [Run_dc_motors [DC_Motor_1, DC_Motor_2] 50 True] =
      Inl (e, \<lparr>throttleL = 1 / 2, throttleR = 1 / 5\<rparr>,
           [Run_dc_motors [DC_Motor_1, DC_Motor_2] 50 True]))"
  using run_failure_atomic [of 0 2 "\<lparr>throttleL = 1 / 2, throttleR = 1 / 5\<rparr>"
      "[Run_dc_motors [DC_Motor_1, DC_Motor_2] 50 True]"]
  by simp

text \<open>
  C8. One side's command \<open>v\<close> becomes the magnitude \<open>int(map_range(abs(v), 0, 1, 0, 100))\<close>,
  the whole part of \<open>100 * |v|\<close> and never negative, with the direction \<open>v > 0\<close>.
  The left pair gets one command. The third and the fourth motor get the same magnitude,
  the fourth with the negated direction.
\<close>

theorem side_dispatch:
  "AMSL293D_convert v =
     (case map_range \<bar>v\<bar> 0 1 0 100 of Inl e \<Rightarrow> Inl e | Inr y \<Rightarrow> Inr (py_int y))
   \<and> AMSL293D_convert v = Inr \<lfloor>\<bar>v\<bar> * 100\<rfloor>
   \<and> 0 \<le> \<lfloor>\<bar>v\<bar> * 100\<rfloor>
   \<and> AMSL293D_runLeftMotors v w =
       Inr (w @ [Run_dc_motors [DC_Motor_1, DC_Motor_2] \<lfloor>\<bar>v\<bar> * 100\<rfloor> (v > 0)])
   \<and> AMSL293D_runRightMotors v w =
       Inr (w @ [Run_dc_motor DC_Motor_3 \<lfloor>\<bar>v\<bar> * 100\<rfloor> (v > 0),
                 Run_dc_motor DC_Motor_4 \<lfloor>\<bar>v\<bar> * 100\<rfloor> (\<not> (v > 0))])"
  by (simp add: convert_eq [symmetric] runLeftMotors_eq runRightMotors_eq AMSL293D_convert_def)

text \<open>
  A command of -0.75: 75 percent, the left pair and the third motor counter-clockwise,
  the fourth clockwise.
\<close>

theorem side_dispatch_witness:
  "AMSL293D_convert (- 3 / 4) = Inr 75
   \<and> AMSL293D_runLeftMotors (- 3 / 4) [] =
       Inr [Run_dc_motors [DC_Motor_1, DC_Motor_2] 75 False]
   \<and> AMSL293D_runRightMotors (- 3 / 4) [] =
       Inr [Run_dc_motor DC_Motor_3 75 False, Run_dc_motor DC_Motor_4 75 True]"
proof -
  note d = side_dispatch [of "- 3 / 4" "[]"]
  from d have c: "AMSL293D_convert (- 3 / 4) = Inr \<lfloor>\<bar>- 3 / 4 :: real\<bar> * 100\<rfloor>"
    by blast
  from d have l: "AMSL293D_runLeftMotors (- 3 / 4) [] =
      Inr ([] @ [Run_dc_motors [DC_Motor_1, DC_Motor_2] \<lfloor>\<bar>- 3 / 4 :: real\<bar> * 100\<rfloor>
                   ((- 3 / 4 :: real) > 0)])"
    by blast
  from d have r: "AMSL293D_runRightMotors (- 3 / 4) [] =
      Inr ([] @ [Run_dc_motor DC_Motor_3 \<lfloor>\<bar>- 3 / 4 :: real\<bar> * 100\<rfloor> ((- 3 / 4 :: real) > 0),
                 Run_dc_motor DC_Motor_4 \<lfloor>\<bar>- 3 / 4 :: real\<bar> * 100\<rfloor> (\<not> ((- 3 / 4 :: real) > 0))])"
    by blast
  have v: "\<lfloor>\<bar>- 3 / 4 :: real\<bar> * 100\<rfloor> = 75"
    by simp
  from c l r show ?thesis
    unfolding v by simp
qed

subsection \<open>The PWM actuators\<close>

text \<open>
  C3. \<open>PWMThrottle.run\<close> hands the controller the pulse of a piecewise-linear map: for a
  positive throttle the line from \<open>zero_pulse\<close> at 0 to \<open>max_pulse\<close> at 1, otherwise the
  line from \<open>min_pulse\<close> at -1 to \<open>zero_pulse\<close> at 0. So \<open>run(0)\<close> sends \<open>zero_pulse\<close>
  whatever the other two pulses are, \<open>run(1)\<close> sends \<open>max_pulse\<close> and \<open>run(-1)\<close> sends
  \<open>min_pulse\<close>. The equations hold for every throttle, in and out of \<open>[-1, 1]\<close>.
\<close>

theorem PWMThrottle_run_piecewise:
  "PWMThrottle_run self throttle w =
     (if throttle > 0
      then controller self (zero_pulse self + throttle * (max_pulse self - zero_pulse self)) w
      else controller self (min_pulse self + (throttle + 1) * (zero_pulse self - min_pulse self)) w)
   \<and> PWMThrottle_run self 0 w = controller self (zero_pulse self) w
   \<and> PWMThrottle_run self 1 w = controller self (max_pulse self) w
   \<and> PWMThrottle_run self (- 1) w = controller self (min_pulse self) w"
  by (simp add: PWMThrottle_run_def map_range_def MIN_THROTTLE_def MAX_THROTTLE_def)

text \<open>
  With the default pulses 300, 490 and 350 on a working board: half throttle forward
  writes 325, half throttle backward writes 420, zero writes 350.
\<close>

theorem PWMThrottle_run_piecewise_witness:
  "PWMThrottle_run
     \<lparr>controller = PCA9685_set_pulse \<lparr>pwm = working_pwm, channel = 0\<rparr>,
      max_pulse = 300, min_pulse = 490, zero_pulse = 350\<rparr> (1 / 2) [] = Inr [Set_pwm 0 0 325]
   \<and> PWMThrottle_run
     \<lparr>controller = PCA9685_set_pulse \<lparr>pwm = working_pwm, channel = 0\<rparr>,
      max_pulse = 300, min_pulse = 490, zero_pulse = 350\<rparr> (- 1 / 2) [] = Inr [Set_pwm 0 0 420]
   \<and> PWMThrottle_run
     \<lparr>controller = PCA9685_set_pulse \<lparr>pwm = working_pwm, channel = 0\<rparr>,
      max_pulse = 300, min_pulse = 490, zero_pulse = 350\<rparr> 0 [] = Inr [Set_pwm 0 0 350]"
  using PWMThrottle_run_piecewise
    [of "\<lparr>controller = PCA9685_set_pulse \<lparr>pwm = working_pwm, channel = 0\<rparr>,
          max_pulse = 300, min_pulse = 490, zero_pulse = 350\<rparr>" "1 / 2" "[]"]
    PWMThrottle_run_piecewise
    [of "\<lparr>controller = PCA9685_set_pulse \<lparr>pwm = working_pwm, channel = 0\<rparr>,
          max_pulse = 300, min_pulse = 490, zero_pulse = 350\<rparr>" "- 1 / 2" "[]"]
  by (simp add: PCA9685_set_pulse_def working_pwm_def)

text \<open>
  C4. \<open>PWMSteering.run\<close> hands the controller the pulse of the line from \<open>left_pulse\<close>
  at -1 to \<open>right_pulse\<close> at 1, in whichever order the two pulses are: \<open>run(-1)\<close> sends
  \<open>left_pulse\<close>, \<open>run(1)\<close> sends \<open>right_pulse\<close> and \<open>run(0)\<close> sends their midpoint.
\<close>

theorem PWMSteering_run_linear:
  "PWMSteering_run self angle w =
     PWMSteering.controller self
       (left_pulse self + (angle + 1) * (right_pulse self - left_pulse self) / 2) w
   \<and> PWMSteering_run self (- 1) w = PWMSteering.controller self (left_pulse self) w
   \<and> PWMSteering_run self 1 w = PWMSteering.controller self (right_pulse self) w
   \<and> PWMSteering_run self 0 w =
       PWMSteering.controller self ((left_pulse self + right_pulse self) / 2) w"
proof -
  have gen: "PWMSteering_run self a w =
      PWMSteering.controller self
        (left_pulse self + (a + 1) * (right_pulse self - left_pulse self) / 2) w" for a
    by (simp add: PWMSteering_run_def map_range_def LEFT_ANGLE_def RIGHT_ANGLE_def)
  have l: "left_pulse self + (- 1 + 1) * (right_pulse self - left_pulse self) / 2 =
      left_pulse self"
    by simp
  have r: "left_pulse self + (1 + 1) * (right_pulse self - left_pulse self) / 2 =
      right_pulse self"
    by (simp add: field_simps)
  have m: "left_pulse self + (0 + 1) * (right_pulse self - left_pulse self) / 2 =
      (left_pulse self + right_pulse self) / 2"
    by (simp add: field_simps)
  show ?thesis
    using gen [of angle] gen [of "- 1"] gen [of 1] gen [of 0]
    unfolding l r m by blast
qed

text \<open>
  Pulses 290 and 490 give 390 in the middle; with the pulses the other way round, 490
  and 290, the angle -1 still gives the left pulse 490, and the angle 0.5 gives 340.
\<close>

theorem PWMSteering_run_linear_witness:
  "PWMSteering_run (PWMSteering_init (PCA9685_set_pulse \<lparr>pwm = working_pwm, channel = 1\<rparr>) 290 490)
     0 [] = Inr [Set_pwm 1 0 390]
   \<and> PWMSteering_run (PWMSteering_init (PCA9685_set_pulse \<lparr>pwm = working_pwm, channel = 1\<rparr>) 490 290)
     (- 1) [] = Inr [Set_pwm 1 0 490]
   \<and> PWMSteering_run (PWMSteering_init (PCA9685_set_pulse \<lparr>pwm = working_pwm, channel = 1\<rparr>) 490 290)
     (1 / 2) [] = Inr [Set_pwm 1 0 340]"
  using PWMSteering_run_linear
    [of "PWMSteering_init (PCA9685_set_pulse \<lparr>pwm = working_pwm, channel = 1\<rparr>) 290 490" 0 "[]"]
    PWMSteering_run_linear
    [of "PWMSteering_init (PCA9685_set_pulse \<lparr>pwm = working_pwm, channel = 1\<rparr>) 490 290" "- 1" "[]"]
    PWMSteering_run_linear
    [of "PWMSteering_init (PCA9685_set_pulse \<lparr>pwm = working_pwm, channel = 1\<rparr>) 490 290" "1 / 2" "[]"]
  by (simp add: PWMSteering_init_def PCA9685_set_pulse_def working_pwm_def)

text \<open>
  C5. On both actuators \<open>shutdown()\<close> has the outcome of \<open>run(0)\<close> in every world: the
  same call on the controller, hence the same pulse, the same events and the same
  exception if there is one.
\<close>

theorem shutdown_is_run_zero:
  "PWMSteering_shutdown s w = PWMSteering_run s 0 w
   \<and> PWMThrottle_shutdown t w = PWMThrottle_run t 0 w"
  by (simp add: PWMSteering_shutdown_def PWMThrottle_shutdown_def)

subsection \<open>The PWM driver and its bus\<close>

lemma set_pulse_OSError:
  assumes "pwm d (channel d) 0 pulse w = Inl (OSError err, w')"
  shows "PCA9685_set_pulse d pulse w =
     Inr (w' @ [Print (''Unexpected issue setting PWM (check wires to motor board): '' @ err)])"
  using assms by (simp add: PCA9685_set_pulse_def print_def)

text \<open>
  C6. If the write of the board raises \<open>OSError\<close> for a pulse, \<open>set_pulse\<close> returns
  normally: the world is what the failed write left, followed by the printed line, and
  nothing else is done. The same holds for \<open>run\<close> of the driver and for \<open>run\<close> of a steering
  or throttle actuator on that driver, when the pulse is the one the actuator computes.
\<close>

theorem bus_error_does_not_propagate:
  assumes "pwm d (channel d) 0 pulse w = Inl (OSError err, w')"
  shows "PCA9685_set_pulse d pulse w =
       Inr (w' @ [Print (''Unexpected issue setting PWM (check wires to motor board): '' @ err)])
   \<and> PCA9685_run d pulse w =
       Inr (w' @ [Print (''Unexpected issue setting PWM (check wires to motor board): '' @ err)])
   \<and> (map_range angle LEFT_ANGLE RIGHT_ANGLE l r = Inr pulse \<longrightarrow>
       PWMSteering_run (PWMSteering_init (PCA9685_set_pulse d) l r) angle w =
         Inr (w' @ [Print (''Unexpected issue setting PWM (check wires to motor board): '' @ err)]))
   \<and> ((if throttle > 0 then map_range throttle 0 MAX_THROTTLE zerop maxp
        else map_range throttle MIN_THROTTLE 0 minp zerop) = Inr pulse \<longrightarrow>
       PWMThrottle_run
         \<lparr>controller = PCA9685_set_pulse d, max_pulse = maxp, min_pulse = minp, zero_pulse = zerop\<rparr>
         throttle w =
         Inr (w' @ [Print (''Unexpected issue setting PWM (check wires to motor board): '' @ err)]))"
  using set_pulse_OSError [OF assms]
  by (simp add: PCA9685_run_def PWMSteering_run_def PWMSteering_init_def PWMThrottle_run_def)

text \<open>
  A board on channel 1 whose write fails without changing anything: the driver and both
  actuators return, and the only new event is the printed line.
\<close>

theorem bus_error_does_not_propagate_witness:
  "pwm \<lparr>pwm = failing_pwm, channel = 1\<rparr> (channel \<lparr>pwm = failing_pwm, channel = 1\<rparr>) 0 390 [Sleep 1] =
     Inl (OSError ''[Errno 121] Remote I/O error'', [Sleep 1])
   \<and> PCA9685_set_pulse \<lparr>pwm = failing_pwm, channel = 1\<rparr> 390 [Sleep 1] =
       Inr [Sleep 1,
            Print ''Unexpected issue setting PWM (check wires to motor board): [Errno 121] Remote I/O error'']
   \<and> map_range 0 LEFT_ANGLE RIGHT_ANGLE 290 490 = Inr 390
   \<and> PWMSteering_run (PWMSteering_init (PCA9685_set_pulse \<lparr>pwm = failing_pwm, channel = 1\<rparr>) 290 490)
       0 [Sleep 1] =
       Inr [Sleep 1,
            Print ''Unexpected issue setting PWM (check wires to motor board): [Errno 121] Remote I/O error'']
   \<and> (if (- 1 / 2 :: real) > 0 then map_range (- 1 / 2) 0 MAX_THROTTLE 350 250
       else map_range (- 1 / 2) MIN_THROTTLE 0 430 350) = Inr 390
   \<and> PWMThrottle_run
       \<lparr>controller = PCA9685_set_pulse \<lparr>pwm = failing_pwm, channel = 1\<rparr>,
        max_pulse = 250, min_pulse = 430, zero_pulse = 350\<rparr> (- 1 / 2) [Sleep 1] =
       Inr [Sleep 1,
            Print ''Unexpected issue setting PWM (check wires to motor board): [Errno 121] Remote I/O error'']"
proof -
  have fail: "pwm \<lparr>pwm = failing_pwm, channel = 1\<rparr> (channel \<lparr>pwm = failing_pwm, channel = 1\<rparr>)
      0 390 [Sleep 1] = Inl (OSError ''[Errno 121] Remote I/O error'', [Sleep 1])"
    by (simp add: failing_pwm_def)
  have st: "map_range 0 LEFT_ANGLE RIGHT_ANGLE 290 490 = Inr 390"
    by (simp add: map_range_def LEFT_ANGLE_def RIGHT_ANGLE_def)
  have th: "(if (- 1 / 2 :: real) > 0 then map_range (- 1 / 2) 0 MAX_THROTTLE 350 250
       else map_range (- 1 / 2) MIN_THROTTLE 0 430 350) = Inr 390"
    by (simp add: map_range_def MIN_THROTTLE_def)
  from bus_error_does_not_propagate [OF fail, of 0 290 490 "- 1 / 2" 350 250 430] fail st th
  show ?thesis
    by simp
qed

text \<open>
  C7. The constructor of \<open>PWMThrottle\<close> calls the controller once, with \<open>zero_pulse\<close>, and
  when that call returns it sleeps for 1 second and gives the object: the world after
  construction is the world that one call left, followed by \<open>Sleep 1\<close>. If the call
  raises, the constructor raises and there is no object to run. On a working board the
  events of construction are exactly one write of \<open>zero_pulse\<close> and the sleep. The wait is
  modelled by the call of \<open>time.sleep(1)\<close>, not by elapsed time.
\<close>

theorem PWMThrottle_init_calibrates:
  "(ctl zerop w = Inr w' \<longrightarrow>
      PWMThrottle_init ctl maxp minp zerop w =
        Inr (\<lparr>controller = ctl, max_pulse = maxp, min_pulse = minp, zero_pulse = zerop\<rparr>,
             w' @ [Sleep 1]))
   \<and> (ctl zerop w = Inl (e, w') \<longrightarrow> PWMThrottle_init ctl maxp minp zerop w = Inl (e, w'))
   \<and> PWMThrottle_init (PCA9685_set_pulse \<lparr>pwm = working_pwm, channel = ch\<rparr>) maxp minp zerop w =
        Inr (\<lparr>controller = PCA9685_set_pulse \<lparr>pwm = working_pwm, channel = ch\<rparr>,
              max_pulse = maxp, min_pulse = minp, zero_pulse = zerop\<rparr>,
             w @ [Set_pwm ch 0 zerop, Sleep 1])"
  by (simp add: PWMThrottle_init_def time_sleep_def PCA9685_set_pulse_def working_pwm_def)

text \<open>
  The default pulses on a working board at channel 0, and a controller that raises.
\<close>

theorem PWMThrottle_init_calibrates_witness:
  "PCA9685_set_pulse \<lparr>pwm = working_pwm, channel = 0\<rparr> 350 [] = Inr [Set_pwm 0 0 350]
   \<and> PWMThrottle_init (PCA9685_set_pulse \<lparr>pwm = working_pwm, channel = 0\<rparr>) 300 490 350 [] =
        Inr (\<lparr>controller = PCA9685_set_pulse \<lparr>pwm = working_pwm, channel = 0\<rparr>,
              max_pulse = 300, min_pulse = 490, zero_pulse = 350\<rparr>,
             [Set_pwm 0 0 350, Sleep 1])
   \<and> PWMThrottle_init (\<lambda>pulse w. Inl (OtherError ''no board'', w)) 300 490 350 [] =
        Inl (OtherError ''no board'', [])"
proof -
  have ok: "PCA9685_set_pulse \<lparr>pwm = working_pwm, channel = 0\<rparr> 350 [] = Inr [Set_pwm 0 0 350]"
    by (simp add: PCA9685_set_pulse_def working_pwm_def)
  from PWMThrottle_init_calibrates
         [of "PCA9685_set_pulse \<lparr>pwm = working_pwm, channel = 0\<rparr>" 350 "[]" "[Set_pwm 0 0 350]"
             300 490]
       PWMThrottle_init_calibrates
         [of "\<lambda>pulse w. Inl (OtherError ''no board'', w)" 350 "[]" "[]" 300 490 "OtherError ''no board''"]
       ok
  show ?thesis
    by simp
qed

end
